theory Spec2Isabelle
  imports Complex_Main "HOL-Library.Sublist"
begin

section \<open>Values exchanged with the collaborators of \<^verbatim>\<open>Hack/Modules/ship.py\<close>\<close>

text \<open>
  \<^verbatim>\<open>ship.py\<close> holds the class \<^verbatim>\<open>ShipModule\<close>. Everything it calls outside itself
  (the memory reader behind \<^verbatim>\<open>DisplayObject\<close>, \<^verbatim>\<open>helpers.calculate_distance\<close>,
  \<^verbatim>\<open>helpers.object_to_screen\<close>, \<^verbatim>\<open>mapping.ships\<close>, \<^verbatim>\<open>Classes.Ship\<close>, \<^verbatim>\<open>Classes.Crew\<close>
  and the pyglet primitives) lives in other files. Those collaborators are parameters of
  the model, gathered in the record \<open>externals\<close> below; they are assumed to return.

  A coordinate dictionary (\<^verbatim>\<open>{"x": .., "y": .., "z": ..}\<close>, with the camera angles for
  the viewer) is an association list. It is only handed from one collaborator to another.
\<close>

type_synonym coords = "(string \<times> real) list"

text \<open>
  The distance is a Python number. \<^verbatim>\<open>update\<close> compares it with the integer literal
  \<^verbatim>\<open>1750\<close> and formats it in an f-string, and the two kinds of number format differently
  (\<^verbatim>\<open>1200\<close> against \<^verbatim>\<open>1200.0\<close>), so both kinds are kept apart. \<open>FloatN r\<close> is a finite
  float whose exact value is \<open>r\<close>; Python compares an int and a finite float by their
  exact values, which is what \<open>num_val\<close> gives. A NaN, for which every comparison is
  false, and the infinities are not represented. Screen coordinates and positions are
  reals as well: the offsets are added exactly.
\<close>

datatype number = IntN int | FloatN real

fun num_val :: "number \<Rightarrow> real" where
  "num_val (IntN i) = of_int i"
| "num_val (FloatN r) = r"

text \<open>\<^verbatim>\<open>str(i)\<close> of a Python int: decimal digits, with a minus sign when negative.\<close>

definition digit_char :: "nat \<Rightarrow> char" where
  "digit_char d = ''0123456789'' ! d"

function str_nat :: "nat \<Rightarrow> string" where
  "str_nat n = (if n < 10 then [digit_char n] else str_nat (n div 10) @ [digit_char (n mod 10)])"
  by pat_completeness auto
termination
  by (relation "measure (\<lambda>n. n)") auto

declare str_nat.simps [simp del]

definition str_int :: "int \<Rightarrow> string" where
  "str_int i = (if i < 0 then CHR ''-'' # str_nat (nat (- i)) else str_nat (nat i))"

text \<open>
  \<^verbatim>\<open>sub in s\<close> on Python strings: \<open>sub\<close> occurs in \<open>s\<close> as a contiguous run.
\<close>

primrec contains :: "string \<Rightarrow> string \<Rightarrow> bool" where
  "contains sub [] = (sub = [])"
| "contains sub (c # cs) = (prefix sub (c # cs) \<or> contains sub cs)"

section \<open>The pyglet primitives\<close>

text \<open>
  A primitive has a position, a visibility flag and the batch it was added to. pyglet's
  \<^verbatim>\<open>delete()\<close> releases the vertex data; the model counts how many times \<^verbatim>\<open>delete()\<close> was
  called on the primitive in \<open>deletes\<close>. The label carries its text, the circle its radius
  and colour, the sprite its image.
\<close>

datatype batch = foreground_batch | background_batch

datatype icon_image = SLOOP_ICON | BRIGANTINE_ICON | GALLEON_ICON

record visual =
  pos_x :: real
  pos_y :: real
  visible :: bool
  batch_of :: batch
  deletes :: nat

record label = visual +
  label_text :: string

record shape = visual +
  radius :: real
  color :: "nat list"

record sprite = visual +
  img :: icon_image

definition vdelete :: "'a visual_scheme \<Rightarrow> 'a visual_scheme" where
  "vdelete v = v\<lparr>deletes := Suc (deletes v)\<rparr>"

section \<open>The collaborators\<close>

type_synonym guid = nat

record externals =
  get_actor_id :: "nat \<Rightarrow> nat"
  get_root_comp_address :: "nat \<Rightarrow> nat"
  class_coord_offset :: nat
  coord_builder :: "nat \<Rightarrow> nat \<Rightarrow> coords"
  calculate_distance :: "coords \<Rightarrow> coords \<Rightarrow> number"
  object_to_screen :: "coords \<Rightarrow> coords \<Rightarrow> (real \<times> real) option"
  ships :: "string \<rightharpoonup> (string \<rightharpoonup> string)"
  get_crew_guid :: "nat \<Rightarrow> guid"
  tracker :: "guid \<rightharpoonup> nat list"
  float_str :: "real \<Rightarrow> string"

text \<open>
  \<^item> \<open>get_actor_id\<close>, \<open>get_root_comp_address\<close>, \<open>coord_builder\<close> and \<open>class_coord_offset\<close>
    are \<^verbatim>\<open>DisplayObject._get_actor_id\<close>, \<^verbatim>\<open>_get_root_comp_address\<close>, \<^verbatim>\<open>_coord_builder\<close>
    and the class attribute \<^verbatim>\<open>coord_offset\<close>: reads of the game's memory.
  \<^item> \<open>object_to_screen\<close> returns a pair, or a falsy value (\<open>None\<close> here) when the point is
    not on the screen; \<^verbatim>\<open>if self.screen_coords:\<close> tests exactly that.
  \<^item> \<open>tracker g\<close> is \<^verbatim>\<open>Crew.tracker[g].color\<close> when \<^verbatim>\<open>g in Crew.tracker\<close>.
  \<^item> \<open>float_str\<close> is Python's \<^verbatim>\<open>str\<close> on a float.
\<close>

definition str_number :: "externals \<Rightarrow> number \<Rightarrow> string" where
  "str_number E n = (case n of IntN i \<Rightarrow> str_int i | FloatN r \<Rightarrow> float_str E r)"

section \<open>ShipModule\<close>

definition CIRCLE_SIZE :: real where
  "CIRCLE_SIZE = 25"

record ship_module =
  actor_id :: nat
  address :: nat
  actor_root_comp_ptr :: nat
  coord_offset :: nat
  my_coords :: coords
  raw_name :: string
  name :: string
  coords :: coords
  distance :: number
  screen_coords :: "(real \<times> real) option"
  crew_guid :: guid
  text_str :: string
  text_render :: label
  circle :: shape
  icon :: sprite
  to_delete :: bool

text \<open>\<^verbatim>\<open>_built_text_string\<close>: \<^verbatim>\<open>f"{self.name} - {self.distance}m"\<close>.\<close>

definition built_text_string :: "externals \<Rightarrow> ship_module \<Rightarrow> string" where
  "built_text_string E s = name s @ '' - '' @ str_number E (distance s) @ ''m''"

text \<open>The three assignments to \<^verbatim>\<open>.visible\<close> that each branch of \<^verbatim>\<open>update\<close> makes.\<close>

definition set_visible :: "bool \<Rightarrow> ship_module \<Rightarrow> ship_module" where
  "set_visible b s =
     s\<lparr>text_render := (text_render s)\<lparr>visible := b\<rparr>,
       circle := (circle s)\<lparr>visible := b\<rparr>,
       icon := (icon s)\<lparr>visible := b\<rparr>\<rparr>"

text \<open>
  The body of \<^verbatim>\<open>update\<close> under \<^verbatim>\<open>if self.screen_coords:\<close> is four blocks, each a
  function of the record here: the near/far switch, the six position assignments, the
  crew colour, and the distance and text. \<^verbatim>\<open>CIRCLE_SIZE * 1.45\<close> is \<open>36.25\<close> (also in
  double precision).
\<close>

definition switch_visibility :: "number \<Rightarrow> ship_module \<Rightarrow> ship_module" where
  "switch_visibility new_distance s =
     (if contains ''Near'' (name s) \<and> num_val new_distance > 1750 then set_visible False s
      else if \<not> contains ''Near'' (name s) \<and> num_val new_distance < 1750 then set_visible False s
      else set_visible True s)"

definition reposition :: "real \<Rightarrow> real \<Rightarrow> ship_module \<Rightarrow> ship_module" where
  "reposition sx sy s =
     s\<lparr>circle := (circle s)\<lparr>pos_x := sx - CIRCLE_SIZE / 2, pos_y := sy - CIRCLE_SIZE / 2\<rparr>,
       icon := (icon s)\<lparr>pos_x := sx - CIRCLE_SIZE * 1.45, pos_y := sy - CIRCLE_SIZE * 1.45\<rparr>,
       text_render := (text_render s)\<lparr>pos_x := sx + CIRCLE_SIZE / 2 + 10,
                                        pos_y := sy + CIRCLE_SIZE / 2 - 30\<rparr>\<rparr>"

definition recolor :: "externals \<Rightarrow> ship_module \<Rightarrow> ship_module" where
  "recolor E s =
     (case tracker E (crew_guid s) of
        Some c \<Rightarrow> s\<lparr>circle := (circle s)\<lparr>color := take 3 c\<rparr>\<rparr>
      | None \<Rightarrow> s)"

definition retext :: "externals \<Rightarrow> number \<Rightarrow> ship_module \<Rightarrow> ship_module" where
  "retext E new_distance s =
     (let s1 = s\<lparr>distance := new_distance\<rparr>;
          s2 = s1\<lparr>text_str := built_text_string E s1\<rparr>
      in s2\<lparr>text_render := (text_render s2)\<lparr>label_text := text_str s2\<rparr>\<rparr>)"

text \<open>
  The statements of \<^verbatim>\<open>update\<close> before the branch on \<^verbatim>\<open>self.screen_coords\<close>: the viewer's
  coordinates are stored, the world coordinates are read again through the handle
  resolved at construction, and the projection is stored. The distance is computed into
  the local \<^verbatim>\<open>new_distance\<close>, not into the record.
\<close>

definition read_coords :: "externals \<Rightarrow> ship_module \<Rightarrow> coords" where
  "read_coords E s = coord_builder E (actor_root_comp_ptr s) (coord_offset s)"

definition refresh :: "externals \<Rightarrow> coords \<Rightarrow> ship_module \<Rightarrow> ship_module" where
  "refresh E viewer s =
     (let s1 = s\<lparr>my_coords := viewer\<rparr>;
          s2 = s1\<lparr>coords := read_coords E s1\<rparr>
      in s2\<lparr>screen_coords := object_to_screen E (my_coords s2) (coords s2)\<rparr>)"

text \<open>\<^verbatim>\<open>update(self, my_coords)\<close>.\<close>

definition update :: "externals \<Rightarrow> coords \<Rightarrow> ship_module \<Rightarrow> ship_module" where
  "update E viewer s =
     (if get_actor_id E (address s) \<noteq> actor_id s then
        s\<lparr>to_delete := True,
          circle := vdelete (circle s),
          icon := vdelete (icon s),
          text_render := vdelete (text_render s)\<rparr>
      else
        let s1 = refresh E viewer s;
            new_distance = calculate_distance E (coords s1) (my_coords s1)
        in case screen_coords s1 of
             Some (sx, sy) \<Rightarrow>
               retext E new_distance
                 (recolor E (reposition sx sy (switch_visibility new_distance s1)))
           | None \<Rightarrow> set_visible False s1)"

text \<open>\<^verbatim>\<open>_delete(self)\<close>: the three \<^verbatim>\<open>delete()\<close> calls, with no guard.\<close>

definition delete :: "ship_module \<Rightarrow> ship_module" where
  "delete s =
     s\<lparr>text_render := vdelete (text_render s),
       circle := vdelete (circle s),
       icon := vdelete (icon s)\<rparr>"

subsection \<open>Construction\<close>

text \<open>
  The three \<^verbatim>\<open>_build_*_render\<close> methods read \<^verbatim>\<open>self.name\<close>, \<^verbatim>\<open>self.screen_coords\<close> and
  \<^verbatim>\<open>self.text_str\<close>; they are functions of those. A new pyglet primitive is visible.
\<close>

definition build_icon_render :: "string \<Rightarrow> (real \<times> real) option \<Rightarrow> sprite" where
  "build_icon_render nm sc =
     (let ship_type = (if contains ''Galleon'' nm then GALLEON_ICON
                       else if contains ''Brig'' nm then BRIGANTINE_ICON
                       else SLOOP_ICON)
      in case sc of
           Some (sx, sy) \<Rightarrow>
             \<lparr>pos_x = sx - CIRCLE_SIZE, pos_y = sy - CIRCLE_SIZE, visible = True,
              batch_of = foreground_batch, deletes = 0, img = ship_type\<rparr>
         | None \<Rightarrow>
             \<lparr>pos_x = 0, pos_y = 0, visible = True,
              batch_of = foreground_batch, deletes = 0, img = ship_type\<rparr>)"

definition build_circle_render :: "(real \<times> real) option \<Rightarrow> shape" where
  "build_circle_render sc =
     (case sc of
        Some (sx, sy) \<Rightarrow>
          \<lparr>pos_x = sx - CIRCLE_SIZE / 2, pos_y = sy - CIRCLE_SIZE / 2, visible = True,
           batch_of = background_batch, deletes = 0,
           radius = CIRCLE_SIZE, color = [255, 255, 255]\<rparr>
      | None \<Rightarrow>
          \<lparr>pos_x = 0, pos_y = 0, visible = True,
           batch_of = background_batch, deletes = 0,
           radius = CIRCLE_SIZE, color = [255, 255, 255]\<rparr>)"

definition build_text_render :: "string \<Rightarrow> (real \<times> real) option \<Rightarrow> label" where
  "build_text_render txt sc =
     (case sc of
        Some (sx, sy) \<Rightarrow>
          \<lparr>pos_x = sx + CIRCLE_SIZE / 2 + 10, pos_y = sy + CIRCLE_SIZE / 2 - 30,
           visible = True, batch_of = foreground_batch, deletes = 0, label_text = txt\<rparr>
      | None \<Rightarrow>
          \<lparr>pos_x = 0, pos_y = 0,
           visible = True, batch_of = foreground_batch, deletes = 0, label_text = txt\<rparr>)"

text \<open>
  \<^verbatim>\<open>__init__\<close>. \<^verbatim>\<open>ships.get(self.raw_name)\<close> is \<^verbatim>\<open>None\<close> for an unmapped raw name and the
  following \<^verbatim>\<open>.get("Name")\<close> raises AttributeError. A mapping entry without \<^verbatim>\<open>"Name"\<close>
  makes \<^verbatim>\<open>self.name\<close> \<^verbatim>\<open>None\<close>, and \<^verbatim>\<open>"Galleon" in self.name\<close> raises TypeError in
  \<^verbatim>\<open>_build_icon_render\<close>. So every constructed object has a string for a name.
\<close>

datatype error = AttributeError | TypeError

definition init :: "externals \<Rightarrow> nat \<Rightarrow> nat \<Rightarrow> string \<Rightarrow> coords \<Rightarrow> error + ship_module" where
  "init E aid addr raw viewer =
     (case ships E raw of
        None \<Rightarrow> Inl AttributeError
      | Some entry \<Rightarrow>
          (case entry ''Name'' of
             None \<Rightarrow> Inl TypeError
           | Some nm \<Rightarrow>
               let root = get_root_comp_address E addr;
                   cs = coord_builder E root (class_coord_offset E);
                   d = calculate_distance E cs viewer;
                   sc = object_to_screen E viewer cs;
                   txt = nm @ '' - '' @ str_number E d @ ''m''
               in Inr \<lparr>actor_id = aid, address = addr, actor_root_comp_ptr = root,
                       coord_offset = class_coord_offset E, my_coords = viewer,
                       raw_name = raw, name = nm, coords = cs, distance = d,
                       screen_coords = sc, crew_guid = get_crew_guid E addr,
                       text_str = txt, text_render = build_text_render txt sc,
                       circle = build_circle_render sc, icon = build_icon_render nm sc,
                       to_delete = False\<rparr>))"

subsection \<open>Sequences of calls\<close>

text \<open>
  The registry calls \<^verbatim>\<open>update\<close> once per frame, each time against the memory and the
  crew registry as they are at that moment, and may call \<^verbatim>\<open>_delete\<close>.
\<close>

datatype call = Update externals coords | Dispose

fun apply_call :: "ship_module \<Rightarrow> call \<Rightarrow> ship_module" where
  "apply_call s (Update E viewer) = update E viewer s"
| "apply_call s Dispose = delete s"

definition run :: "call list \<Rightarrow> ship_module \<Rightarrow> ship_module" where
  "run cs s = foldl apply_call s cs"

text \<open>A call that reaches the \<^verbatim>\<open>delete()\<close> calls of the primitives.\<close>

fun deleting :: "ship_module \<Rightarrow> call \<Rightarrow> bool" where
  "deleting s (Update E viewer) = (get_actor_id E (address s) \<noteq> actor_id s)"
| "deleting s Dispose = True"


section \<open>Predicates used in the statements\<close>

text \<open>The test at the top of \<^verbatim>\<open>update\<close> passes.\<close>

definition identity_ok :: "externals \<Rightarrow> ship_module \<Rightarrow> bool" where
  "identity_ok E s = (get_actor_id E (address s) = actor_id s)"

text \<open>
  The value that the near/far switch gives the three flags: a name with \<^verbatim>\<open>Near\<close> is
  shown up to and including 1750, a name without it from 1750 on.
\<close>

definition shown :: "string \<Rightarrow> number \<Rightarrow> bool" where
  "shown nm d = (if contains ''Near'' nm then num_val d \<le> 1750 else 1750 \<le> num_val d)"

definition all_visible :: "ship_module \<Rightarrow> bool" where
  "all_visible s = (visible (text_render s) \<and> visible (circle s) \<and> visible (icon s))"

definition none_visible :: "ship_module \<Rightarrow> bool" where
  "none_visible s =
     (\<not> visible (text_render s) \<and> \<not> visible (circle s) \<and> \<not> visible (icon s))"

text \<open>
  The offsets of the three primitives from a screen point: the circle at minus half of
  \<^verbatim>\<open>CIRCLE_SIZE\<close>, the icon at minus 1.45 times it, the label at plus half of it plus 10
  and plus half of it minus 30.
\<close>

definition positioned_at :: "real \<Rightarrow> real \<Rightarrow> ship_module \<Rightarrow> bool" where
  "positioned_at sx sy s =
     (pos_x (circle s) = sx - 12.5 \<and> pos_y (circle s) = sy - 12.5 \<and>
      pos_x (icon s) = sx - 36.25 \<and> pos_y (icon s) = sy - 36.25 \<and>
      pos_x (text_render s) = sx + 22.5 \<and> pos_y (text_render s) = sy - 17.5)"

definition same_positions :: "ship_module \<Rightarrow> ship_module \<Rightarrow> bool" where
  "same_positions s t =
     (pos_x (circle s) = pos_x (circle t) \<and> pos_y (circle s) = pos_y (circle t) \<and>
      pos_x (icon s) = pos_x (icon t) \<and> pos_y (icon s) = pos_y (icon t) \<and>
      pos_x (text_render s) = pos_x (text_render t) \<and>
      pos_y (text_render s) = pos_y (text_render t))"

section \<open>A small world for concrete runs\<close>

text \<open>
  An actor at address 4096 whose identity token reads as \<open>aid\<close>, at distance \<open>d\<close> from the
  viewer and projected to \<open>sc\<close>; the crew with guid 3 is known and red. The two records
  are the near and the far actor of one sloop, as \<^verbatim>\<open>__init__\<close> builds them off-screen at
  distance 100 with identity 7.
\<close>

definition viewer0 :: coords where
  "viewer0 = [(''x'', 0), (''y'', 0), (''z'', 0)]"

definition ship_at :: coords where
  "ship_at = [(''x'', 60), (''y'', 80), (''z'', 0)]"

definition world :: "nat \<Rightarrow> number \<Rightarrow> (real \<times> real) option \<Rightarrow> externals" where
  "world aid d sc =
     \<lparr>get_actor_id = (\<lambda>a. aid),
      get_root_comp_address = (\<lambda>a. a + 360),
      class_coord_offset = 300,
      coord_builder = (\<lambda>p off. ship_at),
      calculate_distance = (\<lambda>a b. d),
      object_to_screen = (\<lambda>a b. sc),
      ships = [''BP_SmallShipTemplate_C'' \<mapsto> [''Name'' \<mapsto> ''Sloop (Near)''],
               ''BP_SmallShipNetProxy_C'' \<mapsto> [''Name'' \<mapsto> ''Sloop'']],
      get_crew_guid = (\<lambda>a. 3),
      tracker = [3 \<mapsto> [255, 0, 0, 255]],
      float_str = (\<lambda>r. ''float'')\<rparr>"

definition new_ship :: "string \<Rightarrow> string \<Rightarrow> ship_module" where
  "new_ship raw nm =
     \<lparr>actor_id = 7, address = 4096, actor_root_comp_ptr = 4456, coord_offset = 300,
      my_coords = viewer0, raw_name = raw, name = nm, coords = ship_at,
      distance = IntN 100, screen_coords = None, crew_guid = 3,
      text_str = nm @ '' - 100m'',
      text_render = build_text_render (nm @ '' - 100m'') None,
      circle = build_circle_render None,
      icon = build_icon_render nm None,
      to_delete = False\<rparr>"

definition near_ship :: ship_module where
  "near_ship = new_ship ''BP_SmallShipTemplate_C'' ''Sloop (Near)''"

definition far_ship :: ship_module where
  "far_ship = new_ship ''BP_SmallShipNetProxy_C'' ''Sloop''"


section \<open>What each block of \<^verbatim>\<open>update\<close> does to each field\<close>

lemma refresh_fields:
  "my_coords (refresh E v s) = v"
  "coords (refresh E v s) = read_coords E s"
  "screen_coords (refresh E v s) = object_to_screen E v (read_coords E s)"
  "name (refresh E v s) = name s"
  "distance (refresh E v s) = distance s"
  "text_str (refresh E v s) = text_str s"
  "crew_guid (refresh E v s) = crew_guid s"
  "address (refresh E v s) = address s"
  "actor_id (refresh E v s) = actor_id s"
  "actor_root_comp_ptr (refresh E v s) = actor_root_comp_ptr s"
  "coord_offset (refresh E v s) = coord_offset s"
  "to_delete (refresh E v s) = to_delete s"
  "circle (refresh E v s) = circle s"
  "icon (refresh E v s) = icon s"
  "text_render (refresh E v s) = text_render s"
  by (simp_all add: refresh_def read_coords_def Let_def)

lemma set_visible_fields:
  "my_coords (set_visible b s) = my_coords s"
  "coords (set_visible b s) = coords s"
  "screen_coords (set_visible b s) = screen_coords s"
  "name (set_visible b s) = name s"
  "distance (set_visible b s) = distance s"
  "text_str (set_visible b s) = text_str s"
  "crew_guid (set_visible b s) = crew_guid s"
  "address (set_visible b s) = address s"
  "actor_id (set_visible b s) = actor_id s"
  "actor_root_comp_ptr (set_visible b s) = actor_root_comp_ptr s"
  "coord_offset (set_visible b s) = coord_offset s"
  "to_delete (set_visible b s) = to_delete s"
  "circle (set_visible b s) = (circle s)\<lparr>visible := b\<rparr>"
  "icon (set_visible b s) = (icon s)\<lparr>visible := b\<rparr>"
  "text_render (set_visible b s) = (text_render s)\<lparr>visible := b\<rparr>"
  by (simp_all add: set_visible_def)

lemma switch_visibility_eq: "switch_visibility d s = set_visible (shown (name s) d) s"
  by (simp add: switch_visibility_def shown_def)

lemma reposition_fields:
  "my_coords (reposition sx sy s) = my_coords s"
  "coords (reposition sx sy s) = coords s"
  "screen_coords (reposition sx sy s) = screen_coords s"
  "name (reposition sx sy s) = name s"
  "distance (reposition sx sy s) = distance s"
  "text_str (reposition sx sy s) = text_str s"
  "crew_guid (reposition sx sy s) = crew_guid s"
  "address (reposition sx sy s) = address s"
  "actor_id (reposition sx sy s) = actor_id s"
  "actor_root_comp_ptr (reposition sx sy s) = actor_root_comp_ptr s"
  "coord_offset (reposition sx sy s) = coord_offset s"
  "to_delete (reposition sx sy s) = to_delete s"
  "circle (reposition sx sy s) = (circle s)\<lparr>pos_x := sx - 12.5, pos_y := sy - 12.5\<rparr>"
  "icon (reposition sx sy s) = (icon s)\<lparr>pos_x := sx - 36.25, pos_y := sy - 36.25\<rparr>"
  "text_render (reposition sx sy s) = (text_render s)\<lparr>pos_x := sx + 22.5, pos_y := sy - 17.5\<rparr>"
  by (simp_all add: reposition_def CIRCLE_SIZE_def)

lemma recolor_fields:
  "my_coords (recolor E s) = my_coords s"
  "coords (recolor E s) = coords s"
  "screen_coords (recolor E s) = screen_coords s"
  "name (recolor E s) = name s"
  "distance (recolor E s) = distance s"
  "text_str (recolor E s) = text_str s"
  "crew_guid (recolor E s) = crew_guid s"
  "address (recolor E s) = address s"
  "actor_id (recolor E s) = actor_id s"
  "actor_root_comp_ptr (recolor E s) = actor_root_comp_ptr s"
  "coord_offset (recolor E s) = coord_offset s"
  "to_delete (recolor E s) = to_delete s"
  "circle (recolor E s) =
     (case tracker E (crew_guid s) of Some c \<Rightarrow> (circle s)\<lparr>color := take 3 c\<rparr> | None \<Rightarrow> circle s)"
  "icon (recolor E s) = icon s"
  "text_render (recolor E s) = text_render s"
  by (simp_all add: recolor_def split: option.split)

lemma retext_fields:
  "my_coords (retext E d s) = my_coords s"
  "coords (retext E d s) = coords s"
  "screen_coords (retext E d s) = screen_coords s"
  "name (retext E d s) = name s"
  "distance (retext E d s) = d"
  "text_str (retext E d s) = name s @ '' - '' @ str_number E d @ ''m''"
  "crew_guid (retext E d s) = crew_guid s"
  "address (retext E d s) = address s"
  "actor_id (retext E d s) = actor_id s"
  "actor_root_comp_ptr (retext E d s) = actor_root_comp_ptr s"
  "coord_offset (retext E d s) = coord_offset s"
  "to_delete (retext E d s) = to_delete s"
  "circle (retext E d s) = circle s"
  "icon (retext E d s) = icon s"
  "text_render (retext E d s) =
     (text_render s)\<lparr>label_text := name s @ '' - '' @ str_number E d @ ''m''\<rparr>"
  by (simp_all add: retext_def built_text_string_def Let_def)

lemma update_mismatch:
  "\<not> identity_ok E s \<Longrightarrow>
   update E v s = s\<lparr>to_delete := True, circle := vdelete (circle s),
                    icon := vdelete (icon s), text_render := vdelete (text_render s)\<rparr>"
  by (simp add: update_def identity_ok_def)

lemma update_offscreen:
  "identity_ok E s \<Longrightarrow> object_to_screen E v (read_coords E s) = None \<Longrightarrow>
   update E v s = set_visible False (refresh E v s)"
  by (simp add: update_def identity_ok_def Let_def refresh_fields)

lemma update_onscreen:
  "identity_ok E s \<Longrightarrow> object_to_screen E v (read_coords E s) = Some (sx, sy) \<Longrightarrow>
   update E v s =
     retext E (calculate_distance E (read_coords E s) v)
       (recolor E (reposition sx sy
          (set_visible (shown (name s) (calculate_distance E (read_coords E s) v))
             (refresh E v s))))"
  by (simp add: update_def identity_ok_def Let_def refresh_fields switch_visibility_eq)

section \<open>The fields after \<^verbatim>\<open>update\<close>, branch by branch\<close>

lemmas block_fields =
  refresh_fields set_visible_fields reposition_fields recolor_fields retext_fields

lemma update_offscreen_fields:
  assumes "identity_ok E s" and "object_to_screen E v (read_coords E s) = None"
  shows "my_coords (update E v s) = v"
    and "coords (update E v s) = read_coords E s"
    and "screen_coords (update E v s) = None"
    and "distance (update E v s) = distance s"
    and "text_str (update E v s) = text_str s"
    and "to_delete (update E v s) = to_delete s"
    and "circle (update E v s) = (circle s)\<lparr>visible := False\<rparr>"
    and "icon (update E v s) = (icon s)\<lparr>visible := False\<rparr>"
    and "text_render (update E v s) = (text_render s)\<lparr>visible := False\<rparr>"
  by (simp_all add: update_offscreen [OF assms] block_fields assms(2))

lemma update_onscreen_fields:
  assumes "identity_ok E s" and "object_to_screen E v (read_coords E s) = Some (sx, sy)"
  shows "my_coords (update E v s) = v"
    and "coords (update E v s) = read_coords E s"
    and "screen_coords (update E v s) = Some (sx, sy)"
    and "distance (update E v s) = calculate_distance E (read_coords E s) v"
    and "text_str (update E v s) =
           name s @ '' - '' @ str_number E (calculate_distance E (read_coords E s) v) @ ''m''"
    and "to_delete (update E v s) = to_delete s"
    and "icon (update E v s) =
           (icon s)\<lparr>visible := shown (name s) (calculate_distance E (read_coords E s) v),
                    pos_x := sx - 36.25, pos_y := sy - 36.25\<rparr>"
    and "text_render (update E v s) =
           (text_render s)\<lparr>visible := shown (name s) (calculate_distance E (read_coords E s) v),
                           pos_x := sx + 22.5, pos_y := sy - 17.5,
                           label_text := name s @ '' - '' @
                             str_number E (calculate_distance E (read_coords E s) v) @ ''m''\<rparr>"
  by (simp_all add: update_onscreen [OF assms] block_fields assms(2))

lemma update_onscreen_circle:
  assumes "identity_ok E s" and "object_to_screen E v (read_coords E s) = Some (sx, sy)"
  shows "visible (circle (update E v s)) = shown (name s) (calculate_distance E (read_coords E s) v)"
    and "pos_x (circle (update E v s)) = sx - 12.5"
    and "pos_y (circle (update E v s)) = sy - 12.5"
    and "deletes (circle (update E v s)) = deletes (circle s)"
    and "color (circle (update E v s)) =
           (case tracker E (crew_guid s) of Some c \<Rightarrow> take 3 c | None \<Rightarrow> color (circle s))"
  by (simp_all add: update_onscreen [OF assms] block_fields split: option.split)

lemma update_keeps:
  "address (update E v s) = address s"
  "actor_id (update E v s) = actor_id s"
  "actor_root_comp_ptr (update E v s) = actor_root_comp_ptr s"
  "coord_offset (update E v s) = coord_offset s"
  "name (update E v s) = name s"
  "crew_guid (update E v s) = crew_guid s"
  by (simp_all add: update_def Let_def block_fields switch_visibility_eq split: option.split)

lemma update_keeps_identity: "identity_ok E (update E v s) = identity_ok E s"
  by (simp add: identity_ok_def update_keeps)

lemma update_keeps_read: "read_coords E' (update E v s) = read_coords E' s"
  by (simp add: read_coords_def update_keeps)

lemma shown_near: "contains ''Near'' nm \<Longrightarrow> shown nm d = (num_val d \<le> 1750)"
  by (simp add: shown_def)

lemma shown_far: "\<not> contains ''Near'' nm \<Longrightarrow> shown nm d = (1750 \<le> num_val d)"
  by (simp add: shown_def)

lemma update_onscreen_visibility:
  assumes "identity_ok E s" and "object_to_screen E v (read_coords E s) = Some (sx, sy)"
  shows "all_visible (update E v s) = shown (name s) (calculate_distance E (read_coords E s) v)"
    and "none_visible (update E v s) = (\<not> shown (name s) (calculate_distance E (read_coords E s) v))"
  by (simp_all add: all_visible_def none_visible_def update_onscreen_circle [OF assms]
      update_onscreen_fields [OF assms])

lemma update_onscreen_positioned:
  assumes "identity_ok E s" and "object_to_screen E v (read_coords E s) = Some (sx, sy)"
  shows "positioned_at sx sy (update E v s)"
  by (simp add: positioned_at_def update_onscreen_circle [OF assms]
      update_onscreen_fields [OF assms])

lemma update_offscreen_invisible:
  assumes "identity_ok E s" and "object_to_screen E v (read_coords E s) = None"
  shows "none_visible (update E v s)"
  by (simp add: none_visible_def update_offscreen_fields [OF assms])

section \<open>Deletions, call by call\<close>

lemma vdelete_fields:
  "pos_x (vdelete p) = pos_x p"
  "pos_y (vdelete p) = pos_y p"
  "visible (vdelete p) = visible p"
  "deletes (vdelete p) = Suc (deletes p)"
  by (simp_all add: vdelete_def)

lemma update_mismatch_fields:
  assumes "\<not> identity_ok E s"
  shows "screen_coords (update E v s) = screen_coords s"
    and "distance (update E v s) = distance s"
    and "to_delete (update E v s)"
    and "circle (update E v s) = vdelete (circle s)"
    and "icon (update E v s) = vdelete (icon s)"
    and "text_render (update E v s) = vdelete (text_render s)"
  by (simp_all add: update_mismatch [OF assms])

lemma update_ok_deletes:
  assumes "identity_ok E s"
  shows "deletes (circle (update E v s)) = deletes (circle s) \<and>
         deletes (icon (update E v s)) = deletes (icon s) \<and>
         deletes (text_render (update E v s)) = deletes (text_render s)"
proof (cases "object_to_screen E v (read_coords E s)")
  case None
  show ?thesis
    by (simp add: update_offscreen_fields [OF assms None])
next
  case (Some p)
  obtain sx sy where "p = (sx, sy)"
    by (cases p)
  with Some have sc: "object_to_screen E v (read_coords E s) = Some (sx, sy)"
    by simp
  show ?thesis
    by (simp add: update_onscreen_fields [OF assms sc] update_onscreen_circle [OF assms sc])
qed

lemma delete_fields:
  "address (delete s) = address s"
  "actor_id (delete s) = actor_id s"
  "to_delete (delete s) = to_delete s"
  "circle (delete s) = vdelete (circle s)"
  "icon (delete s) = vdelete (icon s)"
  "text_render (delete s) = vdelete (text_render s)"
  by (simp_all add: delete_def)

lemma apply_call_keeps:
  "address (apply_call s c) = address s"
  "actor_id (apply_call s c) = actor_id s"
  by (cases c; simp add: update_keeps delete_fields)+

lemma deleting_apply_call: "deleting (apply_call s c) c' = deleting s c'"
  by (cases c') (simp_all add: apply_call_keeps)

lemma apply_call_deletes:
  "deletes (circle (apply_call s c)) = deletes (circle s) + (if deleting s c then 1 else 0) \<and>
   deletes (icon (apply_call s c)) = deletes (icon s) + (if deleting s c then 1 else 0) \<and>
   deletes (text_render (apply_call s c)) =
     deletes (text_render s) + (if deleting s c then 1 else 0)"
proof (cases c)
  case (Update E v)
  show ?thesis
  proof (cases "identity_ok E s")
    case True
    then have "\<not> deleting s c"
      by (simp add: Update identity_ok_def)
    with True show ?thesis
      by (simp add: Update update_ok_deletes)
  next
    case False
    then have "deleting s c"
      by (simp add: Update identity_ok_def)
    with False show ?thesis
      by (simp add: Update update_mismatch_fields vdelete_fields)
  qed
next
  case Dispose
  then show ?thesis
    by (simp add: delete_fields vdelete_fields)
qed

lemma filter_deleting_apply_call: "filter (deleting (apply_call s c)) cs = filter (deleting s) cs"
  by (rule filter_cong) (simp_all add: deleting_apply_call)

section \<open>The constructor on the small world\<close>

lemma init_near:
  "init (world 7 (IntN 100) None) 7 4096 ''BP_SmallShipTemplate_C'' viewer0 = Inr near_ship"
  by (simp add: init_def world_def near_ship_def new_ship_def Let_def str_number_def
      str_int_def str_nat.simps digit_char_def)

lemma init_far:
  "init (world 7 (IntN 100) None) 7 4096 ''BP_SmallShipNetProxy_C'' viewer0 = Inr far_ship"
  by (simp add: init_def world_def far_ship_def new_ship_def Let_def str_number_def
      str_int_def str_nat.simps digit_char_def)

lemma init_unmapped:
  "init (world 7 (IntN 100) None) 7 4096 ''BP_Rowboat_C'' viewer0 = Inl AttributeError"
  by (simp add: init_def world_def)


section \<open>Facts about the small world\<close>

lemma world_fields:
  "get_actor_id (world aid d sc) a = aid"
  "calculate_distance (world aid d sc) p q = d"
  "object_to_screen (world aid d sc) p q = sc"
  "tracker (world aid d sc) 3 = Some [255, 0, 0, 255]"
  "coord_builder (world aid d sc) m n = ship_at"
  by (simp_all add: world_def)

lemma new_ship_fields:
  "actor_id (new_ship raw nm) = 7"
  "address (new_ship raw nm) = 4096"
  "name (new_ship raw nm) = nm"
  "distance (new_ship raw nm) = IntN 100"
  "crew_guid (new_ship raw nm) = 3"
  "to_delete (new_ship raw nm) = False"
  "screen_coords (new_ship raw nm) = None"
  "text_str (new_ship raw nm) = nm @ '' - 100m''"
  "label_text (text_render (new_ship raw nm)) = nm @ '' - 100m''"
  "deletes (circle (new_ship raw nm)) = 0"
  "deletes (icon (new_ship raw nm)) = 0"
  "deletes (text_render (new_ship raw nm)) = 0"
  "pos_x (circle (new_ship raw nm)) = 0"
  "pos_y (circle (new_ship raw nm)) = 0"
  "pos_x (icon (new_ship raw nm)) = 0"
  "pos_y (icon (new_ship raw nm)) = 0"
  "pos_x (text_render (new_ship raw nm)) = 0"
  "pos_y (text_render (new_ship raw nm)) = 0"
  "color (circle (new_ship raw nm)) = [255, 255, 255]"
  "visible (circle (new_ship raw nm))"
  "visible (icon (new_ship raw nm))"
  "visible (text_render (new_ship raw nm))"
  by (simp_all add: new_ship_def build_circle_render_def build_icon_render_def
      build_text_render_def)

lemma demo_identity:
  "identity_ok (world 7 d sc) (new_ship raw nm)"
  "\<not> identity_ok (world 8 d sc) (new_ship raw nm)"
  by (simp_all add: identity_ok_def world_fields new_ship_fields)

lemma near_name: "contains ''Near'' (name near_ship)" "contains ''Near'' ''Sloop (Near)''"
  by (simp_all add: near_ship_def new_ship_fields)

lemma far_name: "\<not> contains ''Near'' (name far_ship)" "\<not> contains ''Near'' ''Sloop''"
  by (simp_all add: far_ship_def new_ship_fields)

section \<open>The near/far switch\<close>

text \<open>
  Claim C1. For a near/far pair with screen coordinates present, at most one of the two
  records is visible after \<^verbatim>\<open>update\<close>, and at distance exactly 1750 only the far one is.
  The code tests \<^verbatim>\<open>new_distance > 1750\<close> for a name with \<^verbatim>\<open>Near\<close> and
  \<^verbatim>\<open>new_distance < 1750\<close> for a name without it; both tests are strict, so at distance
  1750 neither hides its record. Evaluated on the pair of the small world, both on screen
  at (500, 400) and both at distance 1750: the near record and the far record both end
  with all three primitives visible.
\<close>

theorem switch_at_1750_shows_both:
  "contains ''Near'' (name near_ship) \<and> \<not> contains ''Near'' (name far_ship) \<and>
   identity_ok (world 7 (IntN 1750) (Some (500, 400))) near_ship \<and>
   identity_ok (world 7 (IntN 1750) (Some (500, 400))) far_ship \<and>
   screen_coords (update (world 7 (IntN 1750) (Some (500, 400))) viewer0 near_ship) = Some (500, 400) \<and>
   screen_coords (update (world 7 (IntN 1750) (Some (500, 400))) viewer0 far_ship) = Some (500, 400) \<and>
   all_visible (update (world 7 (IntN 1750) (Some (500, 400))) viewer0 near_ship) \<and>
   all_visible (update (world 7 (IntN 1750) (Some (500, 400))) viewer0 far_ship)"
proof -
  let ?E = "world 7 (IntN 1750) (Some (500, 400))"
  have idn: "identity_ok ?E near_ship" and idf: "identity_ok ?E far_ship"
    by (simp_all add: near_ship_def far_ship_def demo_identity)
  have scn: "object_to_screen ?E viewer0 (read_coords ?E near_ship) = Some (500, 400)"
    and scf: "object_to_screen ?E viewer0 (read_coords ?E far_ship) = Some (500, 400)"
    by (simp_all add: world_fields)
  have "all_visible (update ?E viewer0 near_ship)"
    by (simp add: update_onscreen_visibility [OF idn scn] shown_near near_name world_fields)
  moreover have "all_visible (update ?E viewer0 far_ship)"
    by (simp add: update_onscreen_visibility [OF idf scf] shown_far far_name world_fields)
  ultimately show ?thesis
    using idn idf near_name far_name
    by (simp add: update_onscreen_fields [OF idn scn] update_onscreen_fields [OF idf scf])
qed

section \<open>Identity mismatch\<close>

text \<open>
  Claim C2. When the identity token read at the stored address differs from the stored
  identity, \<^verbatim>\<open>update\<close> sets \<open>to_delete\<close>, calls \<^verbatim>\<open>delete()\<close> once on each of the label, the
  circle and the icon, and does nothing else: coordinates, distance, screen coordinates
  and every other field, and every other attribute of the three primitives, are as
  before.
\<close>

theorem update_identity_mismatch:
  assumes "get_actor_id E (address s) \<noteq> actor_id s"
  shows "to_delete (update E v s) \<and>
         deletes (text_render (update E v s)) = Suc (deletes (text_render s)) \<and>
         deletes (circle (update E v s)) = Suc (deletes (circle s)) \<and>
         deletes (icon (update E v s)) = Suc (deletes (icon s)) \<and>
         coords (update E v s) = coords s \<and>
         distance (update E v s) = distance s \<and>
         screen_coords (update E v s) = screen_coords s \<and>
         update E v s =
           s\<lparr>to_delete := True,
             circle := (circle s)\<lparr>deletes := Suc (deletes (circle s))\<rparr>,
             icon := (icon s)\<lparr>deletes := Suc (deletes (icon s))\<rparr>,
             text_render := (text_render s)\<lparr>deletes := Suc (deletes (text_render s))\<rparr>\<rparr>"
proof -
  from assms have "\<not> identity_ok E s"
    by (simp add: identity_ok_def)
  then have "update E v s =
      s\<lparr>to_delete := True, circle := vdelete (circle s),
        icon := vdelete (icon s), text_render := vdelete (text_render s)\<rparr>"
    by (rule update_mismatch)
  then show ?thesis
    by (simp add: vdelete_def)
qed

text \<open>The near record of the small world, read through a memory whose token is 8.\<close>

theorem update_identity_mismatch_witness:
  "get_actor_id (world 8 (IntN 1200) (Some (500, 400))) (address near_ship) \<noteq> actor_id near_ship \<and>
   to_delete (update (world 8 (IntN 1200) (Some (500, 400))) viewer0 near_ship) \<and>
   deletes (circle (update (world 8 (IntN 1200) (Some (500, 400))) viewer0 near_ship)) = 1 \<and>
   distance (update (world 8 (IntN 1200) (Some (500, 400))) viewer0 near_ship) = IntN 100 \<and>
   screen_coords (update (world 8 (IntN 1200) (Some (500, 400))) viewer0 near_ship) = None"
proof -
  let ?E = "world 8 (IntN 1200) (Some (500, 400))"
  have h: "get_actor_id ?E (address near_ship) \<noteq> actor_id near_ship"
    by (simp add: world_fields near_ship_def new_ship_fields)
  from update_identity_mismatch [OF h, of viewer0]
  have "to_delete (update ?E viewer0 near_ship)"
    and "deletes (circle (update ?E viewer0 near_ship)) = Suc (deletes (circle near_ship))"
    and "distance (update ?E viewer0 near_ship) = distance near_ship"
    and "screen_coords (update ?E viewer0 near_ship) = screen_coords near_ship"
    by blast+
  then show ?thesis
    using h by (simp add: near_ship_def new_ship_fields)
qed

section \<open>Visibility after a call that passes the identity test\<close>

text \<open>
  Claim C3. After an \<^verbatim>\<open>update\<close> whose identity test passes, the three visibility flags
  agree: either the label, the circle and the icon are all invisible, or all three are
  visible, and then the projection computed in this call gave a screen point, that point
  is the stored \<open>screen_coords\<close>, and the three primitives sit at their fixed offsets
  from it.
\<close>

theorem update_all_or_none_visible:
  assumes "get_actor_id E (address s) = actor_id s"
  shows "(none_visible (update E v s) \<and> \<not> all_visible (update E v s)) \<or>
         (all_visible (update E v s) \<and> \<not> none_visible (update E v s) \<and>
          (\<exists>sx sy. object_to_screen E v (read_coords E s) = Some (sx, sy) \<and>
                   screen_coords (update E v s) = Some (sx, sy) \<and>
                   positioned_at sx sy (update E v s)))"
proof -
  from assms have ok: "identity_ok E s"
    by (simp add: identity_ok_def)
  show ?thesis
  proof (cases "object_to_screen E v (read_coords E s)")
    case None
    with ok have "none_visible (update E v s)"
      by (rule update_offscreen_invisible)
    then show ?thesis
      by (auto simp: none_visible_def all_visible_def)
  next
    case (Some p)
    obtain sx sy where p: "p = (sx, sy)"
      by (cases p)
    with Some have sc: "object_to_screen E v (read_coords E s) = Some (sx, sy)"
      by simp
    show ?thesis
    proof (cases "shown (name s) (calculate_distance E (read_coords E s) v)")
      case True
      then have "all_visible (update E v s)" and "\<not> none_visible (update E v s)"
        by (simp_all add: update_onscreen_visibility [OF ok sc])
      moreover have "screen_coords (update E v s) = Some (sx, sy)"
        by (rule update_onscreen_fields [OF ok sc])
      moreover have "positioned_at sx sy (update E v s)"
        by (rule update_onscreen_positioned [OF ok sc])
      ultimately show ?thesis
        using sc by blast
    next
      case False
      then have "none_visible (update E v s)" and "\<not> all_visible (update E v s)"
        by (simp_all add: update_onscreen_visibility [OF ok sc])
      then show ?thesis
        by blast
    qed
  qed
qed

text \<open>
  On one world the near record ends visible and placed around (500, 400), and the far
  record ends invisible.
\<close>

theorem update_all_or_none_visible_witness:
  "get_actor_id (world 7 (IntN 1200) (Some (500, 400))) (address near_ship) = actor_id near_ship \<and>
   all_visible (update (world 7 (IntN 1200) (Some (500, 400))) viewer0 near_ship) \<and>
   positioned_at 500 400 (update (world 7 (IntN 1200) (Some (500, 400))) viewer0 near_ship) \<and>
   get_actor_id (world 7 (IntN 1200) (Some (500, 400))) (address far_ship) = actor_id far_ship \<and>
   none_visible (update (world 7 (IntN 1200) (Some (500, 400))) viewer0 far_ship)"
proof -
  let ?E = "world 7 (IntN 1200) (Some (500, 400))"
  have hn: "get_actor_id ?E (address near_ship) = actor_id near_ship"
    and hf: "get_actor_id ?E (address far_ship) = actor_id far_ship"
    by (simp_all add: world_fields near_ship_def far_ship_def new_ship_fields)
  have "\<not> none_visible (update ?E viewer0 near_ship)"
    by (simp add: none_visible_def update_onscreen_circle near_ship_def demo_identity
        world_fields new_ship_fields shown_near near_name)
  with update_all_or_none_visible [OF hn, of viewer0]
  have n: "all_visible (update ?E viewer0 near_ship) \<and>
           positioned_at 500 400 (update ?E viewer0 near_ship)"
    by (auto simp: world_fields)
  have "\<not> all_visible (update ?E viewer0 far_ship)"
    by (simp add: all_visible_def update_onscreen_circle far_ship_def demo_identity
        world_fields new_ship_fields shown_far far_name)
  with update_all_or_none_visible [OF hf, of viewer0]
  have f: "none_visible (update ?E viewer0 far_ship)"
    by blast
  from hn hf n f show ?thesis
    by blast
qed

text \<open>
  Claim C4. For a near/far pair on screen: at distance 1749.999 the record whose name
  contains \<^verbatim>\<open>Near\<close> ends visible and the other invisible; at distance 1750.001 it is the
  other way round. The same holds for every distance below 1750 and every distance above
  it, hence also for the doubles nearest to the two decimals.
\<close>

theorem switch_just_below_and_just_above:
  assumes "contains ''Near'' (name n)" and "\<not> contains ''Near'' (name f)"
    and "get_actor_id E (address n) = actor_id n"
    and "get_actor_id E (address f) = actor_id f"
    and "object_to_screen E v (read_coords E n) = Some pn"
    and "object_to_screen E v (read_coords E f) = Some pf"
    and "num_val (calculate_distance E (read_coords E n) v) = d"
    and "num_val (calculate_distance E (read_coords E f) v) = d"
  shows "(d = 1749.999 \<longrightarrow> all_visible (update E v n) \<and> none_visible (update E v f)) \<and>
         (d = 1750.001 \<longrightarrow> none_visible (update E v n) \<and> all_visible (update E v f)) \<and>
         (d < 1750 \<longrightarrow> all_visible (update E v n) \<and> none_visible (update E v f)) \<and>
         (1750 < d \<longrightarrow> none_visible (update E v n) \<and> all_visible (update E v f))"
proof -
  from assms(3,4) have okn: "identity_ok E n" and okf: "identity_ok E f"
    by (simp_all add: identity_ok_def)
  obtain nx ny where scn: "object_to_screen E v (read_coords E n) = Some (nx, ny)"
    using assms(5) by (cases pn) simp
  obtain fx fy where scf: "object_to_screen E v (read_coords E f) = Some (fx, fy)"
    using assms(6) by (cases pf) simp
  have "all_visible (update E v n) = (d \<le> 1750)" "none_visible (update E v n) = (\<not> d \<le> 1750)"
    by (simp_all add: update_onscreen_visibility [OF okn scn] shown_near assms(1) assms(7))
  moreover
  have "all_visible (update E v f) = (1750 \<le> d)" "none_visible (update E v f) = (\<not> 1750 \<le> d)"
    by (simp_all add: update_onscreen_visibility [OF okf scf] shown_far assms(2) assms(8))
  ultimately show ?thesis
    by simp
qed

text \<open>
  The pair of the small world at both distances, as floats.
\<close>

theorem switch_just_below_and_just_above_witness:
  "contains ''Near'' (name near_ship) \<and> \<not> contains ''Near'' (name far_ship) \<and>
   num_val (calculate_distance (world 7 (FloatN 1749.999) (Some (500, 400)))
      (read_coords (world 7 (FloatN 1749.999) (Some (500, 400))) near_ship) viewer0) = 1749.999 \<and>
   all_visible (update (world 7 (FloatN 1749.999) (Some (500, 400))) viewer0 near_ship) \<and>
   none_visible (update (world 7 (FloatN 1749.999) (Some (500, 400))) viewer0 far_ship) \<and>
   num_val (calculate_distance (world 7 (FloatN 1750.001) (Some (500, 400)))
      (read_coords (world 7 (FloatN 1750.001) (Some (500, 400))) near_ship) viewer0) = 1750.001 \<and>
   none_visible (update (world 7 (FloatN 1750.001) (Some (500, 400))) viewer0 near_ship) \<and>
   all_visible (update (world 7 (FloatN 1750.001) (Some (500, 400))) viewer0 far_ship)"
proof -
  let ?A = "world 7 (FloatN 1749.999) (Some (500, 400))"
  let ?B = "world 7 (FloatN 1750.001) (Some (500, 400))"
  have idA: "get_actor_id ?A (address near_ship) = actor_id near_ship"
    "get_actor_id ?A (address far_ship) = actor_id far_ship"
    and idB: "get_actor_id ?B (address near_ship) = actor_id near_ship"
    "get_actor_id ?B (address far_ship) = actor_id far_ship"
    by (simp_all add: world_fields near_ship_def far_ship_def new_ship_fields)
  have scA: "object_to_screen ?A viewer0 (read_coords ?A near_ship) = Some (500, 400)"
    "object_to_screen ?A viewer0 (read_coords ?A far_ship) = Some (500, 400)"
    and scB: "object_to_screen ?B viewer0 (read_coords ?B near_ship) = Some (500, 400)"
    "object_to_screen ?B viewer0 (read_coords ?B far_ship) = Some (500, 400)"
    by (simp_all add: world_fields)
  have dA: "num_val (calculate_distance ?A (read_coords ?A near_ship) viewer0) = 1749.999"
    "num_val (calculate_distance ?A (read_coords ?A far_ship) viewer0) = 1749.999"
    and dB: "num_val (calculate_distance ?B (read_coords ?B near_ship) viewer0) = 1750.001"
    "num_val (calculate_distance ?B (read_coords ?B far_ship) viewer0) = 1750.001"
    by (simp_all add: world_fields)
  from switch_just_below_and_just_above
    [OF near_name(1) far_name(1) idA(1) idA(2) scA(1) scA(2) dA(1) dA(2)]
  have a: "all_visible (update ?A viewer0 near_ship) \<and> none_visible (update ?A viewer0 far_ship)"
    by blast
  from switch_just_below_and_just_above
    [OF near_name(1) far_name(1) idB(1) idB(2) scB(1) scB(2) dB(1) dB(2)]
  have b: "none_visible (update ?B viewer0 near_ship) \<and> all_visible (update ?B viewer0 far_ship)"
    by blast
  from near_name(1) far_name(1) dA(1) dB(1) a b show ?thesis
    by blast
qed

text \<open>
  Away from 1750 the switch shows exactly one record of a pair that is on screen: one
  is visible precisely when the other is hidden.
\<close>

lemma switch_exactly_one_off_threshold:
  assumes "contains ''Near'' (name n)" and "\<not> contains ''Near'' (name f)"
    and "identity_ok E n" and "identity_ok E f"
    and "object_to_screen E v (read_coords E n) = Some (nx, ny)"
    and "object_to_screen E v (read_coords E f) = Some (fx, fy)"
    and "num_val (calculate_distance E (read_coords E n) v) = d"
    and "num_val (calculate_distance E (read_coords E f) v) = d"
    and "d \<noteq> 1750"
  shows "all_visible (update E v n) = none_visible (update E v f)"
    and "none_visible (update E v n) = all_visible (update E v f)"
  using assms(9)
  by (auto simp: update_onscreen_visibility [OF assms(3) assms(5)]
      update_onscreen_visibility [OF assms(4) assms(6)] shown_near shown_far assms(1,2,7,8))

section \<open>The end-to-end scenario\<close>

text \<open>
  Claim C5. A record named \<^verbatim>\<open>Sloop (Near)\<close> whose update passes the identity test,
  measures the distance 1200 (the Python int) and projects to (500, 400) ends with the
  circle visible at (487.5, 387.5) and the label text \<^verbatim>\<open>Sloop (Near) - 1200m\<close>.
\<close>

theorem sloop_near_at_1200:
  assumes "name s = ''Sloop (Near)''"
    and "get_actor_id E (address s) = actor_id s"
    and "calculate_distance E (read_coords E s) v = IntN 1200"
    and "object_to_screen E v (read_coords E s) = Some (500, 400)"
  shows "visible (circle (update E v s)) \<and>
         pos_x (circle (update E v s)) = 487.5 \<and> pos_y (circle (update E v s)) = 387.5 \<and>
         label_text (text_render (update E v s)) = ''Sloop (Near) - 1200m'' \<and>
         distance (update E v s) = IntN 1200 \<and>
         screen_coords (update E v s) = Some (500, 400)"
proof -
  from assms(2) have ok: "identity_ok E s"
    by (simp add: identity_ok_def)
  have digits: "str_number E (IntN 1200) = ''1200''"
    by (simp add: str_number_def str_int_def str_nat.simps digit_char_def)
  have "shown (name s) (IntN 1200)"
    by (simp add: assms(1) shown_def)
  then have "visible (circle (update E v s))"
    by (simp add: update_onscreen_circle [OF ok assms(4)] assms(3))
  moreover have "pos_x (circle (update E v s)) = 487.5" "pos_y (circle (update E v s)) = 387.5"
    by (simp_all add: update_onscreen_circle [OF ok assms(4)])
  moreover have "label_text (text_render (update E v s)) = ''Sloop (Near) - 1200m''"
    by (simp add: update_onscreen_fields [OF ok assms(4)] assms(1) assms(3) digits)
  moreover have "distance (update E v s) = IntN 1200"
    by (simp add: update_onscreen_fields [OF ok assms(4)] assms(3))
  moreover have "screen_coords (update E v s) = Some (500, 400)"
    by (rule update_onscreen_fields [OF ok assms(4)])
  ultimately show ?thesis
    by blast
qed

text \<open>
  The near record of the small world.
\<close>

theorem sloop_near_at_1200_witness:
  "name near_ship = ''Sloop (Near)'' \<and>
   get_actor_id (world 7 (IntN 1200) (Some (500, 400))) (address near_ship) = actor_id near_ship \<and>
   visible (circle (update (world 7 (IntN 1200) (Some (500, 400))) viewer0 near_ship)) \<and>
   pos_x (circle (update (world 7 (IntN 1200) (Some (500, 400))) viewer0 near_ship)) = 487.5 \<and>
   pos_y (circle (update (world 7 (IntN 1200) (Some (500, 400))) viewer0 near_ship)) = 387.5 \<and>
   label_text (text_render (update (world 7 (IntN 1200) (Some (500, 400))) viewer0 near_ship)) =
     ''Sloop (Near) - 1200m''"
proof -
  let ?E = "world 7 (IntN 1200) (Some (500, 400))"
  have h1: "name near_ship = ''Sloop (Near)''"
    by (simp add: near_ship_def new_ship_fields)
  have h2: "get_actor_id ?E (address near_ship) = actor_id near_ship"
    by (simp add: world_fields near_ship_def new_ship_fields)
  have h3: "calculate_distance ?E (read_coords ?E near_ship) viewer0 = IntN 1200"
    by (simp add: world_fields)
  have h4: "object_to_screen ?E viewer0 (read_coords ?E near_ship) = Some (500, 400)"
    by (simp add: world_fields)
  from sloop_near_at_1200 [OF h1 h2 h3 h4] h1 h2 show ?thesis
    by blast
qed

section \<open>Off screen\<close>

text \<open>
  Claim C6. When the identity test passes and the projection gives no screen point, all
  three primitives end invisible, whatever the distance, and none of their six position
  fields changes.
\<close>

theorem update_offscreen_hides_and_keeps_positions:
  assumes "get_actor_id E (address s) = actor_id s"
    and "object_to_screen E v (read_coords E s) = None"
  shows "none_visible (update E v s) \<and> same_positions (update E v s) s \<and>
         screen_coords (update E v s) = None"
proof -
  from assms(1) have ok: "identity_ok E s"
    by (simp add: identity_ok_def)
  have "none_visible (update E v s)"
    using ok assms(2) by (rule update_offscreen_invisible)
  moreover have "same_positions (update E v s) s"
    by (simp add: same_positions_def update_offscreen_fields [OF ok assms(2)])
  moreover have "screen_coords (update E v s) = None"
    by (rule update_offscreen_fields [OF ok assms(2)])
  ultimately show ?thesis
    by blast
qed

text \<open>
  The near record is first shown around (500, 400) and then goes off screen: it is
  hidden and still placed around (500, 400).
\<close>

theorem update_offscreen_hides_and_keeps_positions_witness:
  "get_actor_id (world 7 (IntN 1200) None)
     (address (update (world 7 (IntN 1200) (Some (500, 400))) viewer0 near_ship)) =
   actor_id (update (world 7 (IntN 1200) (Some (500, 400))) viewer0 near_ship) \<and>
   object_to_screen (world 7 (IntN 1200) None) viewer0
     (read_coords (world 7 (IntN 1200) None)
        (update (world 7 (IntN 1200) (Some (500, 400))) viewer0 near_ship)) = None \<and>
   all_visible (update (world 7 (IntN 1200) (Some (500, 400))) viewer0 near_ship) \<and>
   none_visible (update (world 7 (IntN 1200) None) viewer0
     (update (world 7 (IntN 1200) (Some (500, 400))) viewer0 near_ship)) \<and>
   positioned_at 500 400 (update (world 7 (IntN 1200) None) viewer0
     (update (world 7 (IntN 1200) (Some (500, 400))) viewer0 near_ship))"
proof -
  let ?E1 = "world 7 (IntN 1200) (Some (500, 400))"
  let ?E2 = "world 7 (IntN 1200) None"
  let ?s1 = "update ?E1 viewer0 near_ship"
  have ok1: "identity_ok ?E1 near_ship"
    by (simp add: near_ship_def demo_identity)
  have sc1: "object_to_screen ?E1 viewer0 (read_coords ?E1 near_ship) = Some (500, 400)"
    by (simp add: world_fields)
  have h1: "get_actor_id ?E2 (address ?s1) = actor_id ?s1"
    by (simp add: update_keeps world_fields near_ship_def new_ship_fields)
  have h2: "object_to_screen ?E2 viewer0 (read_coords ?E2 ?s1) = None"
    by (simp add: world_fields)
  have vis: "all_visible ?s1"
    by (simp add: update_onscreen_visibility [OF ok1 sc1] shown_near near_name world_fields)
  have pos: "positioned_at 500 400 ?s1"
    by (rule update_onscreen_positioned [OF ok1 sc1])
  from update_offscreen_hides_and_keeps_positions [OF h1 h2]
  have c: "none_visible (update ?E2 viewer0 ?s1)" "same_positions (update ?E2 viewer0 ?s1) ?s1"
    by blast+
  from c(2) pos have "positioned_at 500 400 (update ?E2 viewer0 ?s1)"
    by (simp add: same_positions_def positioned_at_def)
  with h1 h2 vis c(1) show ?thesis
    by blast
qed

section \<open>The stored distance\<close>

text \<open>
  Claim C7, as the code has it. An \<^verbatim>\<open>update\<close> that passes the identity test reads the world
  coordinates again through the position handle and computes the distance from them. It
  stores that distance in the record only when the projection gave a screen point; off
  screen the record keeps the distance it had.
\<close>

theorem update_distance_stored_when_on_screen:
  assumes "get_actor_id E (address s) = actor_id s"
  shows "coords (update E v s) = coord_builder E (actor_root_comp_ptr s) (coord_offset s) \<and>
         my_coords (update E v s) = v \<and>
         screen_coords (update E v s) = object_to_screen E v (coords (update E v s)) \<and>
         (screen_coords (update E v s) \<noteq> None \<longrightarrow>
            distance (update E v s) = calculate_distance E (coords (update E v s)) v) \<and>
         (screen_coords (update E v s) = None \<longrightarrow> distance (update E v s) = distance s)"
proof -
  from assms have ok: "identity_ok E s"
    by (simp add: identity_ok_def)
  show ?thesis
  proof (cases "object_to_screen E v (read_coords E s)")
    case None
    then show ?thesis
      by (simp add: update_offscreen_fields [OF ok None] read_coords_def)
  next
    case (Some p)
    obtain sx sy where "p = (sx, sy)"
      by (cases p)
    with Some have sc: "object_to_screen E v (read_coords E s) = Some (sx, sy)"
      by simp
    then show ?thesis
      by (simp add: update_onscreen_fields [OF ok sc] read_coords_def)
  qed
qed

text \<open>
  The near record on screen and off screen, the newly measured distance being 200 and
  the stored one 100.
\<close>

theorem update_distance_stored_when_on_screen_witness:
  "get_actor_id (world 7 (IntN 200) (Some (500, 400))) (address near_ship) = actor_id near_ship \<and>
   screen_coords (update (world 7 (IntN 200) (Some (500, 400))) viewer0 near_ship) \<noteq> None \<and>
   distance (update (world 7 (IntN 200) (Some (500, 400))) viewer0 near_ship) = IntN 200 \<and>
   get_actor_id (world 7 (IntN 200) None) (address near_ship) = actor_id near_ship \<and>
   screen_coords (update (world 7 (IntN 200) None) viewer0 near_ship) = None \<and>
   distance (update (world 7 (IntN 200) None) viewer0 near_ship) = IntN 100"
proof -
  let ?A = "world 7 (IntN 200) (Some (500, 400))"
  let ?B = "world 7 (IntN 200) None"
  have hA: "get_actor_id ?A (address near_ship) = actor_id near_ship"
    and hB: "get_actor_id ?B (address near_ship) = actor_id near_ship"
    by (simp_all add: world_fields near_ship_def new_ship_fields)
  from update_distance_stored_when_on_screen [OF hA, of viewer0]
  have a: "screen_coords (update ?A viewer0 near_ship) \<noteq> None \<and>
           distance (update ?A viewer0 near_ship) = IntN 200"
    by (simp add: world_fields)
  from update_distance_stored_when_on_screen [OF hB, of viewer0]
  have b: "screen_coords (update ?B viewer0 near_ship) = None \<and>
           distance (update ?B viewer0 near_ship) = IntN 100"
    by (simp add: world_fields near_ship_def new_ship_fields)
  from hA hB a b show ?thesis
    by blast
qed

text \<open>
  Off screen the stored distance is not the recomputed one: the near record measures 200
  and keeps 100.
\<close>

theorem offscreen_update_keeps_old_distance:
  "get_actor_id (world 7 (IntN 200) None) (address near_ship) = actor_id near_ship \<and>
   coords (update (world 7 (IntN 200) None) viewer0 near_ship) = ship_at \<and>
   calculate_distance (world 7 (IntN 200) None)
     (coords (update (world 7 (IntN 200) None) viewer0 near_ship)) viewer0 = IntN 200 \<and>
   distance (update (world 7 (IntN 200) None) viewer0 near_ship) = IntN 100 \<and>
   distance (update (world 7 (IntN 200) None) viewer0 near_ship) \<noteq>
     calculate_distance (world 7 (IntN 200) None)
       (coords (update (world 7 (IntN 200) None) viewer0 near_ship)) viewer0"
proof -
  let ?E = "world 7 (IntN 200) None"
  have ok: "identity_ok ?E near_ship"
    by (simp add: near_ship_def demo_identity)
  have sc: "object_to_screen ?E viewer0 (read_coords ?E near_ship) = None"
    by (simp add: world_fields)
  have "coords (update ?E viewer0 near_ship) = ship_at"
    by (simp add: update_offscreen_fields [OF ok sc] read_coords_def world_fields)
  moreover have "distance (update ?E viewer0 near_ship) = distance near_ship"
    by (rule update_offscreen_fields [OF ok sc])
  moreover have "distance near_ship = IntN 100"
    by (simp add: near_ship_def new_ship_fields)
  moreover have "get_actor_id ?E (address near_ship) = actor_id near_ship"
    using ok by (simp add: identity_ok_def)
  ultimately show ?thesis
    by (simp add: world_fields)
qed

section \<open>On screen but switched off\<close>

text \<open>
  Claim C10. When the projection gives a screen point and the near/far switch hides the
  record (a name with \<^verbatim>\<open>Near\<close> beyond 1750, or a name without it below 1750), the call
  still writes the positions of all three primitives, the distance and the label text,
  and gives the circle the first three components of the crew's colour when the crew is
  in the tracker (and leaves the colour alone when it is not).
\<close>

theorem hidden_by_switch_still_written:
  assumes "get_actor_id E (address s) = actor_id s"
    and "object_to_screen E v (read_coords E s) = Some (sx, sy)"
    and "calculate_distance E (read_coords E s) v = d"
    and "(contains ''Near'' (name s) \<and> num_val d > 1750) \<or>
         (\<not> contains ''Near'' (name s) \<and> num_val d < 1750)"
  shows "none_visible (update E v s) \<and>
         positioned_at sx sy (update E v s) \<and>
         distance (update E v s) = d \<and>
         text_str (update E v s) = name s @ '' - '' @ str_number E d @ ''m'' \<and>
         label_text (text_render (update E v s)) = name s @ '' - '' @ str_number E d @ ''m'' \<and>
         (\<forall>c. tracker E (crew_guid s) = Some c \<longrightarrow> color (circle (update E v s)) = take 3 c) \<and>
         (tracker E (crew_guid s) = None \<longrightarrow> color (circle (update E v s)) = color (circle s))"
proof -
  from assms(1) have ok: "identity_ok E s"
    by (simp add: identity_ok_def)
  from assms(4) have "\<not> shown (name s) d"
    by (auto simp: shown_def)
  then have "none_visible (update E v s)"
    by (simp add: update_onscreen_visibility [OF ok assms(2)] assms(3))
  moreover have "positioned_at sx sy (update E v s)"
    by (rule update_onscreen_positioned [OF ok assms(2)])
  moreover have "distance (update E v s) = d"
    "text_str (update E v s) = name s @ '' - '' @ str_number E d @ ''m''"
    "label_text (text_render (update E v s)) = name s @ '' - '' @ str_number E d @ ''m''"
    by (simp_all add: update_onscreen_fields [OF ok assms(2)] assms(3))
  moreover have "\<forall>c. tracker E (crew_guid s) = Some c \<longrightarrow> color (circle (update E v s)) = take 3 c"
    "tracker E (crew_guid s) = None \<longrightarrow> color (circle (update E v s)) = color (circle s)"
    by (simp_all add: update_onscreen_circle [OF ok assms(2)])
  ultimately show ?thesis
    by blast
qed

text \<open>
  The near record at distance 1800: hidden, moved from the origin to around (500, 400),
  relabelled and recoloured red.
\<close>

theorem hidden_by_switch_still_written_witness:
  "get_actor_id (world 7 (IntN 1800) (Some (500, 400))) (address near_ship) = actor_id near_ship \<and>
   contains ''Near'' (name near_ship) \<and> num_val (IntN 1800) > 1750 \<and>
   pos_x (circle near_ship) = 0 \<and> distance near_ship = IntN 100 \<and>
   color (circle near_ship) = [255, 255, 255] \<and>
   none_visible (update (world 7 (IntN 1800) (Some (500, 400))) viewer0 near_ship) \<and>
   positioned_at 500 400 (update (world 7 (IntN 1800) (Some (500, 400))) viewer0 near_ship) \<and>
   distance (update (world 7 (IntN 1800) (Some (500, 400))) viewer0 near_ship) = IntN 1800 \<and>
   label_text (text_render (update (world 7 (IntN 1800) (Some (500, 400))) viewer0 near_ship)) =
     ''Sloop (Near) - 1800m'' \<and>
   color (circle (update (world 7 (IntN 1800) (Some (500, 400))) viewer0 near_ship)) = [255, 0, 0]"
proof -
  let ?E = "world 7 (IntN 1800) (Some (500, 400))"
  have h1: "get_actor_id ?E (address near_ship) = actor_id near_ship"
    by (simp add: world_fields near_ship_def new_ship_fields)
  have h2: "object_to_screen ?E viewer0 (read_coords ?E near_ship) = Some (500, 400)"
    by (simp add: world_fields)
  have h3: "calculate_distance ?E (read_coords ?E near_ship) viewer0 = IntN 1800"
    by (simp add: world_fields)
  have h4: "(contains ''Near'' (name near_ship) \<and> num_val (IntN 1800) > 1750) \<or>
            (\<not> contains ''Near'' (name near_ship) \<and> num_val (IntN 1800) < 1750)"
    by (simp add: near_name)
  have before: "pos_x (circle near_ship) = 0" "distance near_ship = IntN 100"
    "color (circle near_ship) = [255, 255, 255]" "name near_ship = ''Sloop (Near)''"
    "tracker ?E (crew_guid near_ship) = Some [255, 0, 0, 255]"
    by (simp_all add: near_ship_def new_ship_fields world_fields)
  have digits: "str_number ?E (IntN 1800) = ''1800''"
    by (simp add: str_number_def str_int_def str_nat.simps digit_char_def)
  from hidden_by_switch_still_written [OF h1 h2 h3 h4]
  have "none_visible (update ?E viewer0 near_ship)"
    and "positioned_at 500 400 (update ?E viewer0 near_ship)"
    and "distance (update ?E viewer0 near_ship) = IntN 1800"
    and "label_text (text_render (update ?E viewer0 near_ship)) = ''Sloop (Near) - 1800m''"
    and "color (circle (update ?E viewer0 near_ship)) = [255, 0, 0]"
    by (simp_all add: before digits)
  with h1 before near_name(1) show ?thesis
    by simp
qed

section \<open>Calling twice\<close>

text \<open>
  Claim C9. Two calls of \<^verbatim>\<open>update\<close> in a row with the same viewer coordinates against the
  same memory and crew registry leave the same screen coordinates, the same stored
  distance and the same six positions after the second call as after the first.
\<close>

theorem update_twice_same_placement:
  "screen_coords (update E v (update E v s)) = screen_coords (update E v s) \<and>
   distance (update E v (update E v s)) = distance (update E v s) \<and>
   same_positions (update E v (update E v s)) (update E v s)"
proof (cases "identity_ok E s")
  case False
  then have "\<not> identity_ok E (update E v s)"
    by (simp add: update_keeps_identity)
  then show ?thesis
    by (simp add: update_mismatch_fields same_positions_def vdelete_fields)
next
  case True
  then have ok1: "identity_ok E (update E v s)"
    by (simp add: update_keeps_identity)
  show ?thesis
  proof (cases "object_to_screen E v (read_coords E s)")
    case None
    then have sc1: "object_to_screen E v (read_coords E (update E v s)) = None"
      by (simp add: update_keeps_read)
    show ?thesis
      by (simp add: update_offscreen_fields [OF ok1 sc1] update_offscreen_fields [OF True None]
          same_positions_def)
  next
    case (Some p)
    obtain sx sy where "p = (sx, sy)"
      by (cases p)
    with Some have sc: "object_to_screen E v (read_coords E s) = Some (sx, sy)"
      by simp
    then have sc1: "object_to_screen E v (read_coords E (update E v s)) = Some (sx, sy)"
      by (simp add: update_keeps_read)
    show ?thesis
      by (simp add: update_onscreen_fields [OF ok1 sc1] update_onscreen_circle [OF ok1 sc1]
          update_onscreen_fields [OF True sc] update_onscreen_circle [OF True sc]
          same_positions_def update_keeps_read)
  qed
qed

text \<open>
  The near record of the small world, updated twice on screen.
\<close>

theorem update_twice_same_placement_witness:
  "screen_coords (update (world 7 (IntN 1200) (Some (500, 400))) viewer0
     (update (world 7 (IntN 1200) (Some (500, 400))) viewer0 near_ship)) =
   screen_coords (update (world 7 (IntN 1200) (Some (500, 400))) viewer0 near_ship) \<and>
   distance (update (world 7 (IntN 1200) (Some (500, 400))) viewer0
     (update (world 7 (IntN 1200) (Some (500, 400))) viewer0 near_ship)) =
   distance (update (world 7 (IntN 1200) (Some (500, 400))) viewer0 near_ship) \<and>
   same_positions
     (update (world 7 (IntN 1200) (Some (500, 400))) viewer0
        (update (world 7 (IntN 1200) (Some (500, 400))) viewer0 near_ship))
     (update (world 7 (IntN 1200) (Some (500, 400))) viewer0 near_ship)"
  by (rule update_twice_same_placement)

section \<open>How often the primitives are deleted\<close>

text \<open>
  Claim C8, as the code has it. Neither \<^verbatim>\<open>update\<close> nor \<^verbatim>\<open>_delete\<close> looks at \<open>to_delete\<close>
  or at whether the primitives were deleted before. Over any sequence of calls, each of
  the three primitives receives one \<^verbatim>\<open>delete()\<close> for every \<^verbatim>\<open>update\<close> in the sequence
  whose identity test fails and one for every \<^verbatim>\<open>_delete\<close>, and none from any other call;
  so a primitive is deleted at most once exactly when the caller makes at most one such
  call.
\<close>

theorem run_delete_count:
  "deletes (circle (run cs s)) = deletes (circle s) + length (filter (deleting s) cs) \<and>
   deletes (icon (run cs s)) = deletes (icon s) + length (filter (deleting s) cs) \<and>
   deletes (text_render (run cs s)) = deletes (text_render s) + length (filter (deleting s) cs)"
proof (induction cs arbitrary: s)
  case Nil
  show ?case
    by (simp add: run_def)
next
  case (Cons c cs)
  have step: "run (c # cs) s = run cs (apply_call s c)"
    by (simp add: run_def)
  show ?case
    unfolding step
    using Cons.IH [of "apply_call s c"]
    by (simp add: filter_deleting_apply_call apply_call_deletes)
qed

text \<open>
  The near record through a passing update, a failing update and a \<^verbatim>\<open>_delete\<close>: two of the
  three calls delete, and each primitive is deleted twice.
\<close>

theorem run_delete_count_witness:
  "deletes (circle near_ship) = 0 \<and>
   length (filter (deleting near_ship)
     [Update (world 7 (IntN 1200) (Some (500, 400))) viewer0,
      Update (world 8 (IntN 1200) (Some (500, 400))) viewer0,
      Dispose]) = 2 \<and>
   deletes (circle (run
     [Update (world 7 (IntN 1200) (Some (500, 400))) viewer0,
      Update (world 8 (IntN 1200) (Some (500, 400))) viewer0,
      Dispose] near_ship)) = 2 \<and>
   deletes (icon (run
     [Update (world 7 (IntN 1200) (Some (500, 400))) viewer0,
      Update (world 8 (IntN 1200) (Some (500, 400))) viewer0,
      Dispose] near_ship)) = 2 \<and>
   deletes (text_render (run
     [Update (world 7 (IntN 1200) (Some (500, 400))) viewer0,
      Update (world 8 (IntN 1200) (Some (500, 400))) viewer0,
      Dispose] near_ship)) = 2"
proof -
  let ?cs = "[Update (world 7 (IntN 1200) (Some (500, 400))) viewer0,
              Update (world 8 (IntN 1200) (Some (500, 400))) viewer0, Dispose]"
  have zero: "deletes (circle near_ship) = 0" "deletes (icon near_ship) = 0"
    "deletes (text_render near_ship) = 0"
    by (simp_all add: near_ship_def new_ship_fields)
  have two: "length (filter (deleting near_ship) ?cs) = 2"
    by (simp add: world_fields near_ship_def new_ship_fields)
  from run_delete_count [of ?cs near_ship] zero two show ?thesis
    by simp
qed

text \<open>
  After a failing update has set \<open>to_delete\<close> and deleted the three primitives once, a
  second failing update deletes each of them a second time, and so does a \<^verbatim>\<open>_delete\<close>.
\<close>

theorem deleted_again_after_removal:
  "deletes (circle near_ship) = 0 \<and> deletes (icon near_ship) = 0 \<and>
   deletes (text_render near_ship) = 0 \<and>
   to_delete (run [Update (world 8 (IntN 100) None) viewer0] near_ship) \<and>
   deletes (circle (run [Update (world 8 (IntN 100) None) viewer0] near_ship)) = 1 \<and>
   deletes (circle (run [Update (world 8 (IntN 100) None) viewer0,
                         Update (world 8 (IntN 100) None) viewer0] near_ship)) = 2 \<and>
   deletes (icon (run [Update (world 8 (IntN 100) None) viewer0,
                       Update (world 8 (IntN 100) None) viewer0] near_ship)) = 2 \<and>
   deletes (text_render (run [Update (world 8 (IntN 100) None) viewer0,
                              Update (world 8 (IntN 100) None) viewer0] near_ship)) = 2 \<and>
   deletes (circle (run [Update (world 8 (IntN 100) None) viewer0, Dispose] near_ship)) = 2"
proof -
  let ?W = "world 8 (IntN 100) None"
  let ?s1 = "update ?W viewer0 near_ship"
  have zero: "deletes (circle near_ship) = 0" "deletes (icon near_ship) = 0"
    "deletes (text_render near_ship) = 0"
    by (simp_all add: near_ship_def new_ship_fields)
  have bad0: "\<not> identity_ok ?W near_ship"
    by (simp add: near_ship_def demo_identity)
  then have bad1: "\<not> identity_ok ?W ?s1"
    by (simp add: update_keeps_identity)
  have one: "deletes (circle ?s1) = 1" "deletes (icon ?s1) = 1" "deletes (text_render ?s1) = 1"
    "to_delete ?s1"
    by (simp_all add: update_mismatch_fields [OF bad0] vdelete_fields zero)
  have two: "deletes (circle (update ?W viewer0 ?s1)) = 2"
    "deletes (icon (update ?W viewer0 ?s1)) = 2"
    "deletes (text_render (update ?W viewer0 ?s1)) = 2"
    by (simp_all add: update_mismatch_fields [OF bad1] vdelete_fields one)
  have disposed: "deletes (circle (delete ?s1)) = 2"
    by (simp add: delete_fields vdelete_fields one)
  from zero one two disposed show ?thesis
    by (simp add: run_def)
qed

end
